theory Spec2Isabelle
  imports Complex_Main "HOL-Library.Sublist"
begin

section \<open>Numbers and errors of the visualizer\<close>

text \<open>
  The program is \<^verbatim>\<open>PythonAPI/no_rendering_mode.py\<close>. Its coordinates are Python
  floats. They are modelled as \<^typ>\<open>real\<close>. In the transform and in the input module
  every arithmetic result is the exact one; in the test of the hero radius, where the
  rounding decides which actors are drawn, each operation is rounded to binary64
  (\<open>round_binary64\<close> below). \<^verbatim>\<open>float('inf')\<close>, which the bounding box starts from,
  has its own constructor in \<open>pynum\<close>, and a division by zero is the Python
  exception it raises. Pixel sizes and window dimensions are Python ints
  (\<^typ>\<open>int\<close>).

  Every exception that the modelled code can raise is a constructor of \<open>error\<close>; a
  function that can raise returns \<open>error + 'a\<close> with \<open>Inl\<close> for the exception.
\<close>

datatype error =
    ZeroDivisionError
  | UnboundLocalError
  | IndexError
  | SystemExit

text \<open>\<^verbatim>\<open>a / float(b)\<close>: Python raises on a zero divisor.\<close>

definition float_div :: "real \<Rightarrow> real \<Rightarrow> error + real" where
  "float_div a b = (if b = 0 then Inl ZeroDivisionError else Inr (a / b))"

text \<open>\<^verbatim>\<open>int(x)\<close> on a float truncates towards zero.\<close>

definition py_int :: "real \<Rightarrow> int" where
  "py_int x = (if 0 \<le> x then \<lfloor>x\<rfloor> else \<lceil>x\<rceil>)"

text \<open>
  The script runs under Python 2 and Python 3 (it looks for the egg of the running
  version). \<^verbatim>\<open>n / 2\<close> on two ints is floor division in the former and true division
  in the latter.
\<close>

datatype pyver = Py2 | Py3

definition int_div2 :: "pyver \<Rightarrow> int \<Rightarrow> real" where
  "int_div2 v n = (case v of Py2 \<Rightarrow> of_int (n div 2) | Py3 \<Rightarrow> of_int n / 2)"

subsection \<open>Rounding to binary64\<close>

text \<open>
  IEEE 754 rounding of a real number to the nearest binary64 number, ties to the even
  significand: 53 significant bits, and below \<open>2 powi (- 1022)\<close> the fixed spacing of
  the subnormal numbers. Overflow is not represented: the coordinates that the simulator
  reports are single-precision numbers, and their differences, squares and sums of
  squares stay far below \<open>2 ^ 1024\<close>.
\<close>

definition round_half_even :: "real \<Rightarrow> int" where
  "round_half_even y =
     (if y - of_int \<lfloor>y\<rfloor> < 1 / 2 then \<lfloor>y\<rfloor>
      else if 1 / 2 < y - of_int \<lfloor>y\<rfloor> then \<lfloor>y\<rfloor> + 1
      else if even \<lfloor>y\<rfloor> then \<lfloor>y\<rfloor> else \<lfloor>y\<rfloor> + 1)"

definition binary64_exponent :: "real \<Rightarrow> int" where
  "binary64_exponent x = max \<lfloor>log 2 \<bar>x\<bar>\<rfloor> (- 1022)"

definition round_binary64 :: "real \<Rightarrow> real" where
  "round_binary64 x =
     (if x = 0 then 0
      else of_int (round_half_even (x / 2 powi (binary64_exponent x - 52)))
             * 2 powi (binary64_exponent x - 52))"

section \<open>TransformHelper\<close>

text \<open>
  The bounds of a helper are finite numbers. The helper that \<^verbatim>\<open>start\<close> would build from
  an empty list of waypoints has an infinite lower bound and is not represented.
\<close>

record transform_helper =
  min_map_point :: "real \<times> real"
  max_map_point :: "real \<times> real"
  map_size :: int

text \<open>\<^verbatim>\<open>TransformHelper.__init__\<close> stores its three arguments and checks nothing.\<close>

definition TransformHelper_init :: "real \<times> real \<Rightarrow> real \<times> real \<Rightarrow> int \<Rightarrow> transform_helper" where
  "TransformHelper_init min_pt max_pt sz =
     \<lparr>min_map_point = min_pt, max_map_point = max_pt, map_size = sz\<rparr>"

definition convert_world_to_screen_point ::
  "transform_helper \<Rightarrow> real \<times> real \<Rightarrow> error + int \<times> int" where
  "convert_world_to_screen_point h point =
     (case float_div (fst point - fst (min_map_point h))
                     (fst (max_map_point h) - fst (min_map_point h)) of
        Inl e \<Rightarrow> Inl e
      | Inr qx \<Rightarrow>
          (case float_div (snd point - snd (min_map_point h))
                          (snd (max_map_point h) - snd (min_map_point h)) of
             Inl e \<Rightarrow> Inl e
           | Inr qy \<Rightarrow>
               Inr (py_int (qx * of_int (map_size h)), py_int (qy * of_int (map_size h)))))"

definition convert_world_to_screen_size ::
  "transform_helper \<Rightarrow> real \<times> real \<Rightarrow> error + int \<times> int" where
  "convert_world_to_screen_size h sz =
     (case float_div (fst sz) (fst (max_map_point h) - fst (min_map_point h)) of
        Inl e \<Rightarrow> Inl e
      | Inr qx \<Rightarrow>
          (case float_div (snd sz) (snd (max_map_point h) - snd (min_map_point h)) of
             Inl e \<Rightarrow> Inl e
           | Inr qy \<Rightarrow>
               Inr (py_int (qx * of_int (map_size h)), py_int (qy * of_int (map_size h)))))"

text \<open>The bounds are degenerate when the box has no extent on one of the axes.\<close>

definition degenerate :: "transform_helper \<Rightarrow> bool" where
  "degenerate h \<longleftrightarrow>
     fst (max_map_point h) = fst (min_map_point h) \<or> snd (max_map_point h) = snd (min_map_point h)"

section \<open>Actors, waypoints and colours\<close>

text \<open>
  The simulator's client library is not part of the program. An actor is modelled by the
  attributes the program reads: \<open>actor_id\<close> (\<^verbatim>\<open>actor.id\<close>), \<open>type_id\<close>, \<open>location\<close> (the
  \<^verbatim>\<open>x\<close> and \<^verbatim>\<open>y\<close> of \<^verbatim>\<open>get_location()\<close>), \<open>yaw\<close> (of \<^verbatim>\<open>get_transform().rotation\<close>),
  \<open>bb_extent\<close> (of \<^verbatim>\<open>bounding_box.extent\<close>) and \<open>state\<close>, the signal phase, which the
  program reads only after it has checked the type identifier. The phases are those of
  the library's \<^verbatim>\<open>TrafficLightState\<close> enumeration.
\<close>

datatype TrafficLightState = Red | Yellow | Green | Off | Unknown

record actor =
  actor_id :: int
  type_id :: string
  location :: "real \<times> real"
  yaw :: real
  bb_extent :: "real \<times> real"
  state :: TrafficLightState

record waypoint =
  wp_location :: "real \<times> real"
  wp_yaw :: real
  lane_width :: real
  is_intersection :: bool

datatype color =
    COLOR_RED | COLOR_BLUE | COLOR_GREEN | COLOR_YELLOW | COLOR_MAGENTA
  | COLOR_WHITE | COLOR_BLACK | COLOR_ORANGE

text \<open>The loops over actors stop at the first exception.\<close>

fun map_err :: "('a \<Rightarrow> error + 'b) \<Rightarrow> 'a list \<Rightarrow> error + 'b list" where
  "map_err f [] = Inr []"
| "map_err f (x # xs) =
     (case f x of
        Inl e \<Rightarrow> Inl e
      | Inr y \<Rightarrow> (case map_err f xs of Inl e \<Rightarrow> Inl e | Inr ys \<Rightarrow> Inr (y # ys)))"

section \<open>Shape renderers\<close>

text \<open>
  Drawing goes to the windowing library. A renderer is modelled by what it hands to
  that library: the size of the glyph, the colour given to the drawing call, the
  position of the blit.
\<close>

record vehicle_render =
  veh_surface_size :: "int \<times> int"
  veh_color :: color
  veh_rotation :: real
  veh_pos :: "int \<times> int"

record disc_render =
  disc_pos :: "int \<times> int"
  disc_self_color :: color
  disc_drawn_color :: color
  disc_radius :: int

text \<open>
  \<^verbatim>\<open>Vehicle.__init__\<close> followed by \<^verbatim>\<open>Vehicle.render\<close>, as \<^verbatim>\<open>render_vehicles\<close> calls
  them for each actor.
\<close>

definition Vehicle :: "actor \<Rightarrow> color \<Rightarrow> transform_helper \<Rightarrow> error + vehicle_render" where
  "Vehicle a c h =
     (case convert_world_to_screen_size h (fst (bb_extent a) * 2, snd (bb_extent a) * 2) of
        Inl e \<Rightarrow> Inl e
      | Inr converted_size \<Rightarrow>
          (case convert_world_to_screen_point h (location a) of
             Inl e \<Rightarrow> Inl e
           | Inr xy \<Rightarrow>
               Inr \<lparr>veh_surface_size = (max (fst converted_size) 1, max (snd converted_size) 1),
                    veh_color = c, veh_rotation = - yaw a, veh_pos = xy\<rparr>))"

text \<open>
  \<^verbatim>\<open>TrafficLight.__init__\<close>. It sets \<^verbatim>\<open>self.color\<close> to black, binds the local
  \<^verbatim>\<open>color\<close> in three branches only, and then draws with the local: \<open>None\<close> is the
  local that was never bound, and reading it raises.
\<close>

definition TrafficLight :: "actor \<Rightarrow> int \<Rightarrow> transform_helper \<Rightarrow> error + disc_render" where
  "TrafficLight a radius h =
     (case convert_world_to_screen_point h (location a) of
        Inl e \<Rightarrow> Inl e
      | Inr xy \<Rightarrow>
          (let local_color =
                 (if sublist ''traffic_light'' (type_id a) then
                    (if state a = Green then Some COLOR_GREEN
                     else if state a = Yellow then Some COLOR_YELLOW
                     else if state a = Red then Some COLOR_RED
                     else None)
                  else None)
           in case local_color of
                None \<Rightarrow> Inl UnboundLocalError
              | Some c \<Rightarrow>
                  Inr \<lparr>disc_pos = xy, disc_self_color = COLOR_BLACK,
                       disc_drawn_color = c, disc_radius = radius\<rparr>))"

definition SpeedLimit :: "actor \<Rightarrow> int \<Rightarrow> transform_helper \<Rightarrow> error + disc_render" where
  "SpeedLimit a radius h =
     (case convert_world_to_screen_point h (location a) of
        Inl e \<Rightarrow> Inl e
      | Inr xy \<Rightarrow>
          Inr \<lparr>disc_pos = xy, disc_self_color = COLOR_BLUE,
               disc_drawn_color = COLOR_BLUE, disc_radius = radius\<rparr>)"

definition Walker :: "actor \<Rightarrow> int \<Rightarrow> transform_helper \<Rightarrow> error + disc_render" where
  "Walker a radius h =
     (case convert_world_to_screen_point h (location a) of
        Inl e \<Rightarrow> Inl e
      | Inr xy \<Rightarrow>
          Inr \<lparr>disc_pos = xy, disc_self_color = COLOR_WHITE,
               disc_drawn_color = COLOR_WHITE, disc_radius = radius\<rparr>)"

definition render_vehicles ::
  "actor list \<Rightarrow> color \<Rightarrow> transform_helper \<Rightarrow> error + vehicle_render list" where
  "render_vehicles list_actors c h = map_err (\<lambda>a. Vehicle a c h) list_actors"

definition render_traffic_lights ::
  "actor list \<Rightarrow> int \<Rightarrow> transform_helper \<Rightarrow> error + disc_render list" where
  "render_traffic_lights list_actors radius h = map_err (\<lambda>a. TrafficLight a radius h) list_actors"

definition render_speed_limits ::
  "actor list \<Rightarrow> int \<Rightarrow> transform_helper \<Rightarrow> error + disc_render list" where
  "render_speed_limits list_actors radius h = map_err (\<lambda>a. SpeedLimit a radius h) list_actors"

definition render_walkers ::
  "actor list \<Rightarrow> int \<Rightarrow> transform_helper \<Rightarrow> error + disc_render list" where
  "render_walkers list_actors radius h = map_err (\<lambda>a. Walker a radius h) list_actors"

section \<open>ModuleInput\<close>

record module_input =
  mouse_pos :: "int \<times> int"
  mouse_offset :: "real \<times> real"
  wheel_offset :: "real \<times> real"
  wheel_amount :: real

definition ModuleInput_init :: module_input where
  "ModuleInput_init =
     \<lparr>mouse_pos = (0, 0), mouse_offset = (0, 0), wheel_offset = (1, 1), wheel_amount = 1 / 10\<rparr>"

section \<open>ModuleWorld\<close>

text \<open>
  The fields of \<^verbatim>\<open>ModuleWorld\<close> that its rendering reads. \<^verbatim>\<open>start\<close> builds the transform
  helper from \<^verbatim>\<open>x_min, y_min, x_max, y_max\<close>, so those four are read from the helper.
\<close>

record module_world =
  actors :: "actor list"
  hero_actor :: "actor option"
  filter_radius :: real
  world_transform_helper :: transform_helper
  surface_size :: int
  map_rendered :: bool

text \<open>The modules of the registry that read or write each other's fields.\<close>

record app_state =
  world :: module_world
  input :: module_input
  hud_show_info :: bool
  render_antialiasing :: bool

subsection \<open>The bounding box of the map\<close>

text \<open>A Python number that may be \<^verbatim>\<open>float('inf')\<close>.\<close>

datatype pynum = Fin real | PInf

text \<open>\<^verbatim>\<open>min(a, v)\<close> and \<^verbatim>\<open>max(a, v)\<close> return the first argument unless the second is
  strictly smaller (larger).\<close>

fun py_min :: "pynum \<Rightarrow> real \<Rightarrow> pynum" where
  "py_min PInf v = Fin v"
| "py_min (Fin a) v = (if v < a then Fin v else Fin a)"

definition py_max :: "real \<Rightarrow> real \<Rightarrow> real" where
  "py_max a v = (if a < v then v else a)"

definition bounding_box_step ::
  "pynum \<times> pynum \<times> real \<times> real \<Rightarrow> waypoint \<Rightarrow> pynum \<times> pynum \<times> real \<times> real" where
  "bounding_box_step acc wp =
     (case acc of (x_min, y_min, x_max, y_max) \<Rightarrow>
        (py_min x_min (fst (wp_location wp)), py_min y_min (snd (wp_location wp)),
         py_max x_max (fst (wp_location wp)), py_max y_max (snd (wp_location wp))))"

definition compute_map_bounding_box :: "waypoint list \<Rightarrow> pynum \<times> pynum \<times> real \<times> real" where
  "compute_map_bounding_box map_waypoints = foldl bounding_box_step (PInf, PInf, 0, 0) map_waypoints"

subsection \<open>Classification and the hero radius\<close>

text \<open>
  The left-hand side of the comparison in \<^verbatim>\<open>is_actor_inside_hero_radius\<close>,
  \<^verbatim>\<open>math.sqrt((a.x - h.x)**2 + (a.y - h.y)**2)\<close>, as the interpreter computes it: the
  two differences, the two squares, the sum and the square root are each rounded to
  binary64. The locations are binary64 numbers already. The square is taken as correctly
  rounded; the C library's power function returns exactly that whenever the square is
  itself a binary64 number.
\<close>

definition computed_distance :: "actor \<Rightarrow> actor \<Rightarrow> real" where
  "computed_distance a hero =
     round_binary64 (sqrt (round_binary64
       (round_binary64 ((round_binary64 (fst (location a) - fst (location hero)))\<^sup>2)
        + round_binary64 ((round_binary64 (snd (location a) - snd (location hero)))\<^sup>2))))"

definition is_actor_inside_hero_radius :: "actor \<Rightarrow> real \<Rightarrow> actor \<Rightarrow> bool" where
  "is_actor_inside_hero_radius hero radius a \<longleftrightarrow> computed_distance a hero \<le> radius"

definition splitActors_step ::
  "actor list \<times> actor list \<times> actor list \<times> actor list \<Rightarrow> actor \<Rightarrow>
   actor list \<times> actor list \<times> actor list \<times> actor list" where
  "splitActors_step acc a =
     (case acc of (vehicles, traffic_lights, speed_limits, walkers) \<Rightarrow>
        if sublist ''vehicle'' (type_id a) then (vehicles @ [a], traffic_lights, speed_limits, walkers)
        else if sublist ''traffic_light'' (type_id a) then (vehicles, traffic_lights @ [a], speed_limits, walkers)
        else if sublist ''speed_limit'' (type_id a) then (vehicles, traffic_lights, speed_limits @ [a], walkers)
        else if sublist ''walker'' (type_id a) then (vehicles, traffic_lights, speed_limits, walkers @ [a])
        else (vehicles, traffic_lights, speed_limits, walkers))"

definition splitActors ::
  "actor list \<Rightarrow> actor list \<times> actor list \<times> actor list \<times> actor list" where
  "splitActors as = foldl splitActors_step ([], [], [], []) as"

subsection \<open>Rendering a frame\<close>

record hero_circle =
  circle_radius :: int
  circle_pos :: "real \<times> real"

record frame =
  vehicles_rendered :: "actor list"
  traffic_lights_rendered :: "actor list"
  speed_limits_rendered :: "actor list"
  walkers_rendered :: "actor list"
  vehicle_glyphs :: "vehicle_render list"
  traffic_light_discs :: "disc_render list"
  speed_limit_discs :: "disc_render list"
  walker_discs :: "disc_render list"
  translation_offset :: "real \<times> real"
  actor_id_labels :: "(real \<times> real) list"
  hero_circle_drawn :: "hero_circle option"

text \<open>\<^verbatim>\<open>ModuleHUD.renderActorId\<close>: the positions of the identity labels.\<close>

definition renderActorId ::
  "bool \<Rightarrow> actor list \<Rightarrow> transform_helper \<Rightarrow> real \<times> real \<Rightarrow> error + (real \<times> real) list" where
  "renderActorId show_info list_actors h off =
     (if show_info then
        map_err (\<lambda>a.
          case convert_world_to_screen_point h (fst (location a), snd (location a) - 4) of
            Inl e \<Rightarrow> Inl e
          | Inr xy \<Rightarrow> Inr (of_int (fst xy) + fst off, of_int (snd xy) + snd off)) list_actors
      else Inr [])"

definition render_hero_actor ::
  "module_world \<Rightarrow> actor \<Rightarrow> real \<times> real \<Rightarrow> error + hero_circle" where
  "render_hero_actor w hero off =
     (case float_div (filter_radius w)
             (fst (max_map_point (world_transform_helper w)) - fst (min_map_point (world_transform_helper w))) of
        Inl e \<Rightarrow> Inl e
      | Inr q \<Rightarrow>
          (let hero_radius = q * of_int (surface_size w) in
           case convert_world_to_screen_point (world_transform_helper w) (location hero) of
             Inl e \<Rightarrow> Inl e
           | Inr xy \<Rightarrow>
               Inr \<lparr>circle_radius = py_int hero_radius,
                    circle_pos = (of_int (fst xy - py_int hero_radius) + fst off,
                                  of_int (snd xy - py_int hero_radius) + snd off)\<rparr>))"

text \<open>
  The translation offset of \<^verbatim>\<open>ModuleWorld.render\<close>, for a display of the given width
  and height.
\<close>

definition render_translation_offset ::
  "pyver \<Rightarrow> app_state \<Rightarrow> int \<Rightarrow> int \<Rightarrow> error + real \<times> real" where
  "render_translation_offset pv st display_width display_height =
     (case hero_actor (world st) of
        None \<Rightarrow>
          Inr (int_div2 pv (display_width - surface_size (world st)) + fst (mouse_offset (input st)),
               snd (mouse_offset (input st)))
      | Some hero \<Rightarrow>
          (case convert_world_to_screen_point (world_transform_helper (world st)) (location hero) of
             Inl e \<Rightarrow> Inl e
           | Inr hero_location_screen \<Rightarrow>
               Inr (- of_int (fst hero_location_screen) + int_div2 pv display_width,
                    - of_int (snd hero_location_screen) + int_div2 pv display_height)))"

text \<open>
  \<^verbatim>\<open>ModuleWorld.render\<close> on a display of the given width and height. It returns the
  state, with \<^verbatim>\<open>map_rendered\<close> set, and what was drawn.
\<close>

definition ModuleWorld_render ::
  "pyver \<Rightarrow> app_state \<Rightarrow> int \<Rightarrow> int \<Rightarrow> error + app_state \<times> frame" where
  "ModuleWorld_render pv st display_width display_height =
     (let w = world st;
          h = world_transform_helper w;
          st' = st\<lparr>world := w\<lparr>map_rendered := True\<rparr>\<rparr>
      in case splitActors (actors w) of (vehicles0, traffic_lights0, speed_limits0, walkers) \<Rightarrow>
        (let vehicles = (case hero_actor w of None \<Rightarrow> vehicles0
               | Some hero \<Rightarrow> filter (is_actor_inside_hero_radius hero (filter_radius w)) vehicles0);
             traffic_lights = (case hero_actor w of None \<Rightarrow> traffic_lights0
               | Some hero \<Rightarrow> filter (is_actor_inside_hero_radius hero (filter_radius w)) traffic_lights0);
             speed_limits = (case hero_actor w of None \<Rightarrow> speed_limits0
               | Some hero \<Rightarrow> filter (is_actor_inside_hero_radius hero (filter_radius w)) speed_limits0)
         in case render_vehicles vehicles COLOR_MAGENTA h of
              Inl e \<Rightarrow> Inl e
            | Inr vs \<Rightarrow>
          (case render_traffic_lights traffic_lights 3 h of
              Inl e \<Rightarrow> Inl e
            | Inr ts \<Rightarrow>
          (case render_speed_limits speed_limits 3 h of
              Inl e \<Rightarrow> Inl e
            | Inr ss \<Rightarrow>
          (case render_walkers walkers 3 h of
              Inl e \<Rightarrow> Inl e
            | Inr ws \<Rightarrow>
          (case render_translation_offset pv st display_width display_height of
              Inl e \<Rightarrow> Inl e
            | Inr off \<Rightarrow>
          (case renderActorId (hud_show_info st) vehicles h off of
              Inl e \<Rightarrow> Inl e
            | Inr labels \<Rightarrow>
          (let fr = \<lparr>vehicles_rendered = vehicles, traffic_lights_rendered = traffic_lights,
                     speed_limits_rendered = speed_limits, walkers_rendered = walkers,
                     vehicle_glyphs = vs, traffic_light_discs = ts, speed_limit_discs = ss,
                     walker_discs = ws, translation_offset = off, actor_id_labels = labels,
                     hero_circle_drawn = None\<rparr>
           in case hero_actor w of
                None \<Rightarrow> Inr (st', fr)
              | Some hero \<Rightarrow>
                  (case filter (\<lambda>vehicle. actor_id vehicle = actor_id hero) vehicles of
                     [] \<Rightarrow> Inl IndexError
                   | selected # _ \<Rightarrow>
                       (case render_hero_actor w selected off of
                          Inl e \<Rightarrow> Inl e
                        | Inr c \<Rightarrow> Inr (st', fr\<lparr>hero_circle_drawn := Some c\<rparr>)))))))))))"

section \<open>Input events\<close>

text \<open>
  The events of the windowing library that \<^verbatim>\<open>_parse_events\<close> tells apart. A
  \<open>MOUSEBUTTONDOWN\<close> carries the button and the pointer position that
  \<^verbatim>\<open>pygame.mouse.get_pos()\<close> returns while it is handled. Each event comes with the
  number that \<^verbatim>\<open>random.choice\<close> would draw while it is handled.
\<close>

datatype key = K_ESCAPE | K_a | K_h | K_i | K_other

datatype event = QUIT | KEYUP key | MOUSEBUTTONDOWN int "int \<times> int" | OTHER_EVENT

definition random_choice :: "nat \<Rightarrow> 'a list \<Rightarrow> error + 'a" where
  "random_choice r xs = (if xs = [] then Inl IndexError else Inr (xs ! (r mod length xs)))"

definition select_random_hero :: "nat \<Rightarrow> module_world \<Rightarrow> error + module_world" where
  "select_random_hero r w =
     (case random_choice r (filter (\<lambda>a. sublist ''vehicle'' (type_id a)) (actors w)) of
        Inl e \<Rightarrow> Inl e
      | Inr a \<Rightarrow> Inr (w\<lparr>hero_actor := Some a\<rparr>))"

text \<open>The wheel: button 4 scrolls up, button 5 scrolls down.\<close>

definition wheel_up :: "module_input \<Rightarrow> module_input" where
  "wheel_up i = i\<lparr>wheel_offset := (fst (wheel_offset i) + wheel_amount i,
                                     snd (wheel_offset i) + wheel_amount i)\<rparr>"

definition wheel_down :: "module_input \<Rightarrow> module_input" where
  "wheel_down i =
     (let w0 = fst (wheel_offset i) - wheel_amount i;
          w1 = snd (wheel_offset i) - wheel_amount i
      in i\<lparr>wheel_offset := (if w0 \<le> 1 / 10 then 1 / 10 else w0,
                             if w1 \<le> 1 / 10 then 1 / 10 else w1)\<rparr>)"

definition parse_event :: "app_state \<Rightarrow> event \<times> nat \<Rightarrow> error + app_state" where
  "parse_event st ev =
     (case fst ev of
        QUIT \<Rightarrow> Inl SystemExit
      | KEYUP k \<Rightarrow>
          (case k of
             K_ESCAPE \<Rightarrow> Inl SystemExit
           | K_a \<Rightarrow> Inr (st\<lparr>render_antialiasing := \<not> render_antialiasing st\<rparr>)
           | K_h \<Rightarrow>
               (case hero_actor (world st) of
                  None \<Rightarrow>
                    (case select_random_hero (snd ev) (world st) of
                       Inl e \<Rightarrow> Inl e
                     | Inr w \<Rightarrow> Inr (st\<lparr>world := w\<rparr>))
                | Some _ \<Rightarrow> Inr (st\<lparr>world := (world st)\<lparr>hero_actor := None\<rparr>\<rparr>))
           | K_i \<Rightarrow> Inr (st\<lparr>hud_show_info := \<not> hud_show_info st\<rparr>)
           | K_other \<Rightarrow> Inr st)
      | MOUSEBUTTONDOWN button pos \<Rightarrow>
          (let i0 = (input st)\<lparr>mouse_pos := pos\<rparr>;
               i1 = (if button = 4 then wheel_up i0 else i0);
               i2 = (if button = 5 then wheel_down i1 else i1)
           in Inr (st\<lparr>input := i2\<rparr>))
      | OTHER_EVENT \<Rightarrow> Inr st)"

fun parse_events :: "app_state \<Rightarrow> (event \<times> nat) list \<Rightarrow> error + app_state" where
  "parse_events st [] = Inr st"
| "parse_events st (ev # evs) =
     (case parse_event st ev of Inl e \<Rightarrow> Inl e | Inr st' \<Rightarrow> parse_events st' evs)"

text \<open>\<^verbatim>\<open>_parse_mouse\<close>, given whether the left button is held and where the pointer is.\<close>

definition parse_mouse :: "module_input \<Rightarrow> bool \<Rightarrow> int \<times> int \<Rightarrow> module_input" where
  "parse_mouse i pressed pos =
     (if pressed then
        i\<lparr>mouse_offset := (fst (mouse_offset i) + of_int (fst pos) - of_int (fst (mouse_pos i)),
                           snd (mouse_offset i) + (of_int (snd pos) - of_int (snd (mouse_pos i)))),
          mouse_pos := pos\<rparr>
      else i)"

definition parse_input ::
  "app_state \<Rightarrow> (event \<times> nat) list \<Rightarrow> bool \<Rightarrow> int \<times> int \<Rightarrow> error + app_state" where
  "parse_input st evs pressed pos =
     (case parse_events st evs of
        Inl e \<Rightarrow> Inl e
      | Inr st' \<Rightarrow> Inr (st'\<lparr>input := parse_mouse (input st') pressed pos\<rparr>))"

text \<open>
  The states the frame loop can be in: the input module starts as its constructor
  leaves it, and each frame parses the input and renders the world.
\<close>

inductive reachable :: "app_state \<Rightarrow> bool" where
  reachable_init: "input st = ModuleInput_init \<Longrightarrow> reachable st"
| reachable_input: "reachable st \<Longrightarrow> parse_input st evs pressed pos = Inr st' \<Longrightarrow> reachable st'"
| reachable_render: "reachable st \<Longrightarrow> ModuleWorld_render pv st dw dh = Inr (st', fr) \<Longrightarrow> reachable st'"

text \<open>
  The same loop from the state that \<^verbatim>\<open>start\<close> leaves: no hero is selected. The list of
  actors is the one fetched by \<^verbatim>\<open>start\<close>; no step replaces it.
\<close>

inductive frame_loop :: "app_state \<Rightarrow> bool" where
  frame_loop_start:
    "hero_actor (world st) = None \<Longrightarrow> input st = ModuleInput_init \<Longrightarrow> frame_loop st"
| frame_loop_input:
    "frame_loop st \<Longrightarrow> parse_input st evs pressed pos = Inr st' \<Longrightarrow> frame_loop st'"
| frame_loop_render:
    "frame_loop st \<Longrightarrow> ModuleWorld_render pv st dw dh = Inr (st', fr) \<Longrightarrow> frame_loop st'"

text \<open>A wheel event is a press of button 4 or of button 5.\<close>

definition is_wheel_event :: "event \<times> nat \<Rightarrow> bool" where
  "is_wheel_event ev =
     (case fst ev of MOUSEBUTTONDOWN button _ \<Rightarrow> button = 4 \<or> button = 5 | _ \<Rightarrow> False)"

text \<open>
  The floor of the zoom: the wheel amount is the tenth the constructor sets and neither
  component of the zoom factor is below a tenth.
\<close>

definition zoom_floor :: "module_input \<Rightarrow> bool" where
  "zoom_floor i \<longleftrightarrow>
     wheel_amount i = 1 / 10 \<and> 1 / 10 \<le> fst (wheel_offset i) \<and> 1 / 10 \<le> snd (wheel_offset i)"


section \<open>Example inputs\<close>

text \<open>
  A map of one kilometre on each side drawn on a canvas of 720 pixels, and a few actors
  on it, for evaluating the definitions above.
\<close>

definition ex_transform :: transform_helper where
  "ex_transform = TransformHelper_init (0, 0) (1000, 1000) 720"

definition ex_vehicle :: actor where
  "ex_vehicle = \<lparr>actor_id = 1, type_id = ''vehicle.audi.tt'', location = (500, 500),
                 yaw = 90, bb_extent = (2, 1), state = Unknown\<rparr>"

definition ex_near :: actor where
  "ex_near = \<lparr>actor_id = 2, type_id = ''vehicle.tesla.model3'', location = (530, 540),
              yaw = 0, bb_extent = (2, 1), state = Unknown\<rparr>"

definition ex_far :: actor where
  "ex_far = \<lparr>actor_id = 3, type_id = ''vehicle.bmw.isetta'', location = (600, 600),
             yaw = 0, bb_extent = (1, 1), state = Unknown\<rparr>"

definition ex_light :: actor where
  "ex_light = \<lparr>actor_id = 4, type_id = ''traffic.traffic_light'', location = (500, 550),
               yaw = 0, bb_extent = (0, 0), state = Green\<rparr>"

definition ex_light_off :: actor where
  "ex_light_off = \<lparr>actor_id = 8, type_id = ''traffic.traffic_light'', location = (500, 520),
                   yaw = 0, bb_extent = (0, 0), state = Off\<rparr>"

definition ex_sign :: actor where
  "ex_sign = \<lparr>actor_id = 5, type_id = ''traffic.speed_limit.30'', location = (450, 500),
              yaw = 0, bb_extent = (0, 0), state = Unknown\<rparr>"

definition ex_walker :: actor where
  "ex_walker = \<lparr>actor_id = 6, type_id = ''walker.pedestrian.0001'', location = (900, 900),
                yaw = 0, bb_extent = (0, 0), state = Unknown\<rparr>"

definition ex_prop :: actor where
  "ex_prop = \<lparr>actor_id = 7, type_id = ''static.prop.bench'', location = (10, 10),
              yaw = 0, bb_extent = (0, 0), state = Unknown\<rparr>"




definition ex_waypoint :: waypoint where
  "ex_waypoint = \<lparr>wp_location = (-5, -3), wp_yaw = 0, lane_width = 3, is_intersection = False\<rparr>"

definition ex_state :: "actor list \<Rightarrow> actor option \<Rightarrow> app_state" where
  "ex_state as hero =
     \<lparr>world = \<lparr>actors = as, hero_actor = hero, filter_radius = 50,
                world_transform_helper = ex_transform, surface_size = 720, map_rendered = False\<rparr>,
      input = ModuleInput_init, hud_show_info = True, render_antialiasing = True\<rparr>"

section \<open>Facts about truncation and the transform\<close>

lemma py_int_of_int: "py_int (of_int n) = n"
  by (simp add: py_int_def)

lemma py_int_nonneg: "0 \<le> x \<Longrightarrow> 0 \<le> py_int x"
  by (simp add: py_int_def)

lemma py_int_le_of_int: "0 \<le> x \<Longrightarrow> x \<le> of_int n \<Longrightarrow> py_int x \<le> n"
  by (simp add: py_int_def floor_le_iff)

lemma py_int_error: "\<bar>of_int (py_int x) - x\<bar> < 1"
  unfolding py_int_def by (cases "0 \<le> x") (simp_all, linarith+)

lemma unit_ratio_scaled:
  fixes a b :: real
  assumes "0 \<le> a" "a \<le> b" "0 < b" "0 \<le> s"
  shows "0 \<le> a / b * s" and "a / b * s \<le> s"
proof -
  have q: "0 \<le> a / b" "a / b \<le> 1" using assms by simp_all
  show "0 \<le> a / b * s" using q(1) assms(4) by (rule mult_nonneg_nonneg)
  show "a / b * s \<le> s" using mult_right_mono [OF q(2) assms(4)] by simp
qed

lemma float_div_nonzero: "b \<noteq> 0 \<Longrightarrow> float_div a b = Inr (a / b)"
  by (simp add: float_div_def)

lemma float_div_zero: "float_div a 0 = Inl ZeroDivisionError"
  by (simp add: float_div_def)

lemma convert_point_nondegenerate:
  assumes "\<not> degenerate h"
  shows "convert_world_to_screen_point h p =
           Inr (py_int ((fst p - fst (min_map_point h)) / (fst (max_map_point h) - fst (min_map_point h)) * of_int (map_size h)),
                py_int ((snd p - snd (min_map_point h)) / (snd (max_map_point h) - snd (min_map_point h)) * of_int (map_size h)))"
  using assms by (simp add: convert_world_to_screen_point_def degenerate_def float_div_def)

lemma convert_size_nondegenerate:
  assumes "\<not> degenerate h"
  shows "convert_world_to_screen_size h v =
           Inr (py_int (fst v / (fst (max_map_point h) - fst (min_map_point h)) * of_int (map_size h)),
                py_int (snd v / (snd (max_map_point h) - snd (min_map_point h)) * of_int (map_size h)))"
  using assms by (simp add: convert_world_to_screen_size_def degenerate_def float_div_def)

lemma convert_point_degenerate:
  assumes "degenerate h"
  shows "convert_world_to_screen_point h p = Inl ZeroDivisionError"
  using assms by (auto simp add: convert_world_to_screen_point_def degenerate_def float_div_def)

lemma convert_size_degenerate:
  assumes "degenerate h"
  shows "convert_world_to_screen_size h v = Inl ZeroDivisionError"
  using assms by (auto simp add: convert_world_to_screen_size_def degenerate_def float_div_def)

lemma scaled_in_canvas:
  fixes a b :: real
  assumes "0 \<le> a" "a \<le> b" "0 < b" "0 \<le> n"
  shows "0 \<le> py_int (a / b * of_int n) \<and> py_int (a / b * of_int n) \<le> n"
proof -
  have s: "(0::real) \<le> of_int n" using assms(4) by simp
  have lo: "0 \<le> a / b * of_int n" using unit_ratio_scaled(1) [OF assms(1-3) s] .
  have hi: "a / b * of_int n \<le> of_int n" using unit_ratio_scaled(2) [OF assms(1-3) s] .
  show ?thesis using py_int_nonneg [OF lo] py_int_le_of_int [OF lo hi] by simp
qed

text \<open>
  Claim C1. For a transform built from bounds with \<open>min < max\<close> on both axes,
  \<open>convert_world_to_screen_point\<close> returns for every world point inside the bounds a
  pixel in the square from \<open>0\<close> to the canvas size (a side length, so not negative);
  it sends the lower corner to \<open>(0, 0)\<close> and the upper corner to
  \<open>(canvasSize, canvasSize)\<close>; with bounds \<open>(0,0)\<close>, \<open>(1000,1000)\<close> and canvas size
  \<open>800\<close> it sends \<open>(500,500)\<close> to \<open>(400,400)\<close>.
\<close>

theorem C1_world_to_screen_point:
  assumes "fst mn < fst mx" and "snd mn < snd mx"
  shows "(fst mn \<le> fst p \<and> fst p \<le> fst mx \<and> snd mn \<le> snd p \<and> snd p \<le> snd mx \<and> 0 \<le> sz \<longrightarrow>
            (\<exists>px py. convert_world_to_screen_point (TransformHelper_init mn mx sz) p = Inr (px, py)
                     \<and> 0 \<le> px \<and> px \<le> sz \<and> 0 \<le> py \<and> py \<le> sz))
         \<and> convert_world_to_screen_point (TransformHelper_init mn mx sz) mn = Inr (0, 0)
         \<and> convert_world_to_screen_point (TransformHelper_init mn mx sz) mx = Inr (sz, sz)
         \<and> convert_world_to_screen_point (TransformHelper_init (0, 0) (1000, 1000) 800) (500, 500)
             = Inr (400, 400)"
proof -
  let ?h = "TransformHelper_init mn mx sz"
  have nd: "\<not> degenerate ?h"
    using assms by (simp add: degenerate_def TransformHelper_init_def)
  have range: "\<exists>px py. convert_world_to_screen_point ?h p = Inr (px, py)
                     \<and> 0 \<le> px \<and> px \<le> sz \<and> 0 \<le> py \<and> py \<le> sz"
    if inside: "fst mn \<le> fst p" "fst p \<le> fst mx" "snd mn \<le> snd p" "snd p \<le> snd mx" and sz: "0 \<le> sz"
  proof -
    have x: "0 \<le> py_int ((fst p - fst mn) / (fst mx - fst mn) * of_int sz)
             \<and> py_int ((fst p - fst mn) / (fst mx - fst mn) * of_int sz) \<le> sz"
      using inside assms sz by (intro scaled_in_canvas) simp_all
    have y: "0 \<le> py_int ((snd p - snd mn) / (snd mx - snd mn) * of_int sz)
             \<and> py_int ((snd p - snd mn) / (snd mx - snd mn) * of_int sz) \<le> sz"
      using inside assms sz by (intro scaled_in_canvas) simp_all
    have eq: "convert_world_to_screen_point ?h p =
                Inr (py_int ((fst p - fst mn) / (fst mx - fst mn) * of_int sz),
                     py_int ((snd p - snd mn) / (snd mx - snd mn) * of_int sz))"
      using convert_point_nondegenerate [OF nd, of p]
      by (simp only: TransformHelper_init_def transform_helper.select_convs)
    show ?thesis using x y eq by blast
  qed
  have at_min: "convert_world_to_screen_point ?h mn = Inr (0, 0)"
    using convert_point_nondegenerate [OF nd, of mn]
    by (simp add: TransformHelper_init_def py_int_def)
  have at_max: "convert_world_to_screen_point ?h mx = Inr (sz, sz)"
    using assms convert_point_nondegenerate [OF nd, of mx]
    by (simp add: TransformHelper_init_def py_int_of_int)
  have nd2: "\<not> degenerate (TransformHelper_init (0, 0) (1000, 1000) 800)"
    by (simp add: degenerate_def TransformHelper_init_def)
  have scenario: "convert_world_to_screen_point (TransformHelper_init (0, 0) (1000, 1000) 800) (500, 500)
             = Inr (400, 400)"
    using convert_point_nondegenerate [OF nd2, of "(500, 500)"]
    by (simp add: TransformHelper_init_def py_int_def)
  show ?thesis using range at_min at_max scenario by blast
qed

theorem C1_world_to_screen_point_witness:
  "convert_world_to_screen_point (TransformHelper_init (0, 0) (1000, 1000) 800) (250, 1000) = Inr (200, 800)
   \<and> convert_world_to_screen_point (TransformHelper_init (0, 0) (1000, 1000) 800) (0, 0) = Inr (0, 0)
   \<and> convert_world_to_screen_point (TransformHelper_init (0, 0) (1000, 1000) 800) (1000, 1000) = Inr (800, 800)"
  using C1_world_to_screen_point [of "(0, 0)" "(1000, 1000)" "(250, 1000)" 800]
  by (simp add: convert_world_to_screen_point_def TransformHelper_init_def float_div_def py_int_def)

text \<open>
  Claim C2 says that degenerate bounds are refused when the transform is constructed
  and never by a conversion. The constructor has no check: with the bounds
  \<open>(0,0)\<close>, \<open>(0,10)\<close> it returns a helper, and both conversions raise on it.
\<close>

theorem C2_degenerate_bounds_counterexample:
  "degenerate (TransformHelper_init (0, 0) (0, 10) 800)
   \<and> convert_world_to_screen_point (TransformHelper_init (0, 0) (0, 10) 800) (0, 5) = Inl ZeroDivisionError
   \<and> convert_world_to_screen_size (TransformHelper_init (0, 0) (0, 10) 800) (1, 1) = Inl ZeroDivisionError"
  by (simp add: degenerate_def convert_world_to_screen_point_def convert_world_to_screen_size_def
      TransformHelper_init_def float_div_def)

text \<open>
  Claim C2, amended. The constructor stores any bounds and raises nothing. On a helper
  with degenerate bounds every call of \<open>convert_world_to_screen_point\<close> and of
  \<open>convert_world_to_screen_size\<close> raises \<open>ZeroDivisionError\<close>: the error comes with each
  call, not with the construction.
\<close>

theorem C2_degenerate_bounds_raise_per_call:
  assumes "degenerate (TransformHelper_init mn mx sz)"
  shows "convert_world_to_screen_point (TransformHelper_init mn mx sz) p = Inl ZeroDivisionError
         \<and> convert_world_to_screen_size (TransformHelper_init mn mx sz) v = Inl ZeroDivisionError"
  using assms by (simp add: convert_point_degenerate convert_size_degenerate)

theorem C2_degenerate_bounds_raise_per_call_witness:
  "convert_world_to_screen_point (TransformHelper_init (3, 0) (3, 10) 800) (3, 5) = Inl ZeroDivisionError
   \<and> convert_world_to_screen_size (TransformHelper_init (3, 0) (3, 10) 800) (2, 2) = Inl ZeroDivisionError"
proof -
  have d: "degenerate (TransformHelper_init (3, 0) (3, 10) 800)"
    by (simp add: degenerate_def TransformHelper_init_def)
  show ?thesis
    using C2_degenerate_bounds_raise_per_call [OF d, of "(3, 5)" "(2, 2)"] by simp
qed

section \<open>Linearity of the size conversion\<close>

lemma truncation_scaling:
  fixes r k :: real
  assumes "0 < k"
  shows "\<bar>of_int (py_int (k * r)) - k * of_int (py_int r)\<bar> < k + 1"
proof -
  have a: "\<bar>of_int (py_int (k * r)) - k * r\<bar> < 1" by (rule py_int_error)
  have "\<bar>k * r - k * of_int (py_int r)\<bar> = k * \<bar>of_int (py_int r) - r\<bar>"
    using assms by (simp add: abs_mult right_diff_distrib [symmetric] abs_minus_commute)
  also have "\<dots> < k * 1"
    using assms py_int_error [of r] by (intro mult_strict_left_mono) simp_all
  finally have b: "\<bar>k * r - k * of_int (py_int r)\<bar> < k" by simp
  show ?thesis using a b by linarith
qed

text \<open>
  Claim C10. \<open>convert_world_to_screen_size\<close> is linear up to truncation: for a
  positive factor \<open>k\<close>, each component of the size of \<open>k\<cdot>v\<close> differs from \<open>k\<close>
  times the component of the size of \<open>v\<close> by less than \<open>k + 1\<close>, which is what the
  two truncations (each below one pixel, one of them scaled by \<open>k\<close>) can add up to.
\<close>

theorem C10_screen_size_linear_up_to_truncation:
  assumes "\<not> degenerate h" and "0 < k"
  shows "\<exists>a b a' b'.
           convert_world_to_screen_size h (vx, vy) = Inr (a, b)
           \<and> convert_world_to_screen_size h (k * vx, k * vy) = Inr (a', b')
           \<and> \<bar>real_of_int a' - k * real_of_int a\<bar> < k + 1
           \<and> \<bar>real_of_int b' - k * real_of_int b\<bar> < k + 1"
proof -
  let ?dx = "fst (max_map_point h) - fst (min_map_point h)"
  let ?dy = "snd (max_map_point h) - snd (min_map_point h)"
  let ?s = "real_of_int (map_size h)"
  have x: "k * vx / ?dx * ?s = k * (vx / ?dx * ?s)" by simp
  have y: "k * vy / ?dy * ?s = k * (vy / ?dy * ?s)" by simp
  have e1: "convert_world_to_screen_size h (vx, vy) =
              Inr (py_int (vx / ?dx * ?s), py_int (vy / ?dy * ?s))"
    using convert_size_nondegenerate [OF assms(1), of "(vx, vy)"]
    by (simp only: fst_conv snd_conv)
  have e2: "convert_world_to_screen_size h (k * vx, k * vy) =
              Inr (py_int (k * (vx / ?dx * ?s)), py_int (k * (vy / ?dy * ?s)))"
    using convert_size_nondegenerate [OF assms(1), of "(k * vx, k * vy)"]
    by (simp only: fst_conv snd_conv x y)
  show ?thesis
    using e1 e2 truncation_scaling [OF assms(2), of "vx / ?dx * ?s"]
          truncation_scaling [OF assms(2), of "vy / ?dy * ?s"]
    by blast
qed

theorem C10_screen_size_linear_up_to_truncation_witness:
  "convert_world_to_screen_size (TransformHelper_init (0, 0) (1000, 1000) 800) (1, 2) = Inr (0, 1)
   \<and> convert_world_to_screen_size (TransformHelper_init (0, 0) (1000, 1000) 800) (3 * 1, 3 * 2) = Inr (2, 4)
   \<and> \<bar>real_of_int 2 - 3 * real_of_int 0\<bar> < 3 + 1
   \<and> \<bar>real_of_int 4 - 3 * real_of_int 1\<bar> < 3 + 1"
  using C10_screen_size_linear_up_to_truncation
          [of "TransformHelper_init (0, 0) (1000, 1000) 800" 3 1 2]
  by (simp add: degenerate_def convert_world_to_screen_size_def TransformHelper_init_def
      float_div_def py_int_def)

section \<open>The classifier\<close>

lemma ex_type_ids:
  "type_id ex_vehicle = ''vehicle.audi.tt''"
  "type_id ex_near = ''vehicle.tesla.model3''"
  "type_id ex_far = ''vehicle.bmw.isetta''"
  "type_id ex_light = ''traffic.traffic_light''"
  "type_id ex_light_off = ''traffic.traffic_light''"
  "type_id ex_sign = ''traffic.speed_limit.30''"
  "type_id ex_walker = ''walker.pedestrian.0001''"
  "type_id ex_prop = ''static.prop.bench''"
  by (simp_all add: ex_vehicle_def ex_near_def ex_far_def ex_light_def ex_light_off_def
      ex_sign_def ex_walker_def ex_prop_def)

lemma splitActors_step_tuple:
  "splitActors_step (vs, ts, ss, ws) a =
     (if sublist ''vehicle'' (type_id a) then (vs @ [a], ts, ss, ws)
      else if sublist ''traffic_light'' (type_id a) then (vs, ts @ [a], ss, ws)
      else if sublist ''speed_limit'' (type_id a) then (vs, ts, ss @ [a], ws)
      else if sublist ''walker'' (type_id a) then (vs, ts, ss, ws @ [a])
      else (vs, ts, ss, ws))"
  by (simp add: splitActors_step_def)

lemma splitActors_step_fold:
  "foldl splitActors_step (vs, ts, ss, ws) as =
     (vs @ filter (\<lambda>a. sublist ''vehicle'' (type_id a)) as,
      ts @ filter (\<lambda>a. \<not> sublist ''vehicle'' (type_id a) \<and> sublist ''traffic_light'' (type_id a)) as,
      ss @ filter (\<lambda>a. \<not> sublist ''vehicle'' (type_id a) \<and> \<not> sublist ''traffic_light'' (type_id a)
                        \<and> sublist ''speed_limit'' (type_id a)) as,
      ws @ filter (\<lambda>a. \<not> sublist ''vehicle'' (type_id a) \<and> \<not> sublist ''traffic_light'' (type_id a)
                        \<and> \<not> sublist ''speed_limit'' (type_id a) \<and> sublist ''walker'' (type_id a)) as)"
proof (induction as arbitrary: vs ts ss ws)
  case Nil
  show ?case by simp
next
  case (Cons a as)
  show ?case
    by (simp only: foldl_Cons splitActors_step_tuple) (simp add: Cons.IH)
qed

lemma splitActors_filters:
  "splitActors as =
     (filter (\<lambda>a. sublist ''vehicle'' (type_id a)) as,
      filter (\<lambda>a. \<not> sublist ''vehicle'' (type_id a) \<and> sublist ''traffic_light'' (type_id a)) as,
      filter (\<lambda>a. \<not> sublist ''vehicle'' (type_id a) \<and> \<not> sublist ''traffic_light'' (type_id a)
                   \<and> sublist ''speed_limit'' (type_id a)) as,
      filter (\<lambda>a. \<not> sublist ''vehicle'' (type_id a) \<and> \<not> sublist ''traffic_light'' (type_id a)
                   \<and> \<not> sublist ''speed_limit'' (type_id a) \<and> sublist ''walker'' (type_id a)) as)"
  unfolding splitActors_def using splitActors_step_fold [of "[]" "[]" "[]" "[]" as] by simp

text \<open>
  Claim C4. The four groups of \<open>splitActors\<close> are pairwise disjoint. An actor of the
  list whose type identifier contains \<open>vehicle\<close>, \<open>traffic_light\<close>, \<open>speed_limit\<close> or
  \<open>walker\<close> is in exactly one group, the one of the first of these four substrings, in
  this order, that the identifier contains. An actor whose identifier contains none of
  them is in no group, and the groups hold actors of the list only.
\<close>

theorem C4_splitActors_partition:
  assumes "splitActors as = (vehicles, traffic_lights, speed_limits, walkers)"
  shows "set vehicles \<inter> set traffic_lights = {} \<and> set vehicles \<inter> set speed_limits = {}
         \<and> set vehicles \<inter> set walkers = {} \<and> set traffic_lights \<inter> set speed_limits = {}
         \<and> set traffic_lights \<inter> set walkers = {} \<and> set speed_limits \<inter> set walkers = {}
         \<and> (\<forall>a \<in> set as.
               (sublist ''vehicle'' (type_id a) \<longrightarrow>
                  a \<in> set vehicles \<and> a \<notin> set traffic_lights \<and> a \<notin> set speed_limits \<and> a \<notin> set walkers)
             \<and> (\<not> sublist ''vehicle'' (type_id a) \<and> sublist ''traffic_light'' (type_id a) \<longrightarrow>
                  a \<notin> set vehicles \<and> a \<in> set traffic_lights \<and> a \<notin> set speed_limits \<and> a \<notin> set walkers)
             \<and> (\<not> sublist ''vehicle'' (type_id a) \<and> \<not> sublist ''traffic_light'' (type_id a)
                  \<and> sublist ''speed_limit'' (type_id a) \<longrightarrow>
                  a \<notin> set vehicles \<and> a \<notin> set traffic_lights \<and> a \<in> set speed_limits \<and> a \<notin> set walkers)
             \<and> (\<not> sublist ''vehicle'' (type_id a) \<and> \<not> sublist ''traffic_light'' (type_id a)
                  \<and> \<not> sublist ''speed_limit'' (type_id a) \<and> sublist ''walker'' (type_id a) \<longrightarrow>
                  a \<notin> set vehicles \<and> a \<notin> set traffic_lights \<and> a \<notin> set speed_limits \<and> a \<in> set walkers))
         \<and> (\<forall>a. \<not> sublist ''vehicle'' (type_id a) \<and> \<not> sublist ''traffic_light'' (type_id a)
                  \<and> \<not> sublist ''speed_limit'' (type_id a) \<and> \<not> sublist ''walker'' (type_id a) \<longrightarrow>
                  a \<notin> set vehicles \<and> a \<notin> set traffic_lights \<and> a \<notin> set speed_limits \<and> a \<notin> set walkers)
         \<and> set vehicles \<union> set traffic_lights \<union> set speed_limits \<union> set walkers \<subseteq> set as"
proof -
  have v: "vehicles = filter (\<lambda>a. sublist ''vehicle'' (type_id a)) as"
    and t: "traffic_lights = filter (\<lambda>a. \<not> sublist ''vehicle'' (type_id a) \<and> sublist ''traffic_light'' (type_id a)) as"
    and s: "speed_limits = filter (\<lambda>a. \<not> sublist ''vehicle'' (type_id a) \<and> \<not> sublist ''traffic_light'' (type_id a)
                   \<and> sublist ''speed_limit'' (type_id a)) as"
    and w: "walkers = filter (\<lambda>a. \<not> sublist ''vehicle'' (type_id a) \<and> \<not> sublist ''traffic_light'' (type_id a)
                   \<and> \<not> sublist ''speed_limit'' (type_id a) \<and> sublist ''walker'' (type_id a)) as"
    using assms unfolding splitActors_filters by simp_all
  have sv: "set vehicles = {a \<in> set as. sublist ''vehicle'' (type_id a)}"
    unfolding v by simp
  have st: "set traffic_lights = {a \<in> set as. \<not> sublist ''vehicle'' (type_id a) \<and> sublist ''traffic_light'' (type_id a)}"
    unfolding t by simp
  have ss: "set speed_limits = {a \<in> set as. \<not> sublist ''vehicle'' (type_id a) \<and> \<not> sublist ''traffic_light'' (type_id a)
                   \<and> sublist ''speed_limit'' (type_id a)}"
    unfolding s by simp
  have sw: "set walkers = {a \<in> set as. \<not> sublist ''vehicle'' (type_id a) \<and> \<not> sublist ''traffic_light'' (type_id a)
                   \<and> \<not> sublist ''speed_limit'' (type_id a) \<and> sublist ''walker'' (type_id a)}"
    unfolding w by simp
  show ?thesis unfolding sv st ss sw by blast
qed

theorem C4_splitActors_partition_witness:
  "splitActors [ex_vehicle, ex_prop, ex_walker, ex_light, ex_sign, ex_far]
     = ([ex_vehicle, ex_far], [ex_light], [ex_sign], [ex_walker])
   \<and> set [ex_vehicle, ex_far] \<inter> set [ex_light] = {}
   \<and> ex_vehicle \<in> set [ex_vehicle, ex_far] \<and> ex_vehicle \<notin> set [ex_light]
   \<and> ex_walker \<in> set [ex_walker] \<and> ex_walker \<notin> set [ex_vehicle, ex_far]
   \<and> ex_prop \<notin> set [ex_vehicle, ex_far] \<and> ex_prop \<notin> set [ex_light]
   \<and> ex_prop \<notin> set [ex_sign] \<and> ex_prop \<notin> set [ex_walker]"
proof -
  have split: "splitActors [ex_vehicle, ex_prop, ex_walker, ex_light, ex_sign, ex_far]
     = ([ex_vehicle, ex_far], [ex_light], [ex_sign], [ex_walker])"
    by (simp add: splitActors_def splitActors_step_def ex_type_ids sublist_code(3))
  show ?thesis
    using C4_splitActors_partition [OF split] split
    by (simp add: ex_type_ids sublist_code(3))
qed

section \<open>The floor of the zoom\<close>

lemma zoom_floor_init: "zoom_floor ModuleInput_init"
  by (simp add: zoom_floor_def ModuleInput_init_def)

lemma zoom_floor_wheel_up: "zoom_floor i \<Longrightarrow> zoom_floor (wheel_up i)"
  by (simp add: zoom_floor_def wheel_up_def)

lemma zoom_floor_wheel_down: "zoom_floor i \<Longrightarrow> zoom_floor (wheel_down i)"
  by (simp add: zoom_floor_def wheel_down_def Let_def)

lemma zoom_floor_mouse_pos: "zoom_floor (i\<lparr>mouse_pos := p\<rparr>) = zoom_floor i"
  by (simp add: zoom_floor_def)

lemma zoom_floor_parse_mouse: "zoom_floor i \<Longrightarrow> zoom_floor (parse_mouse i pressed pos)"
  by (simp add: zoom_floor_def parse_mouse_def)

lemma zoom_floor_parse_event:
  assumes "zoom_floor (input st)" and "parse_event st ev = Inr st'"
  shows "zoom_floor (input st')"
proof (cases "fst ev")
  case QUIT
  then show ?thesis using assms by (simp add: parse_event_def)
next
  case (KEYUP k)
  then show ?thesis using assms
    by (cases k) (auto simp: parse_event_def select_random_hero_def split: option.splits sum.splits)
next
  case (MOUSEBUTTONDOWN button pos)
  then show ?thesis using assms
    by (auto simp: parse_event_def Let_def zoom_floor_wheel_up zoom_floor_wheel_down zoom_floor_mouse_pos)
next
  case OTHER_EVENT
  then show ?thesis using assms by (simp add: parse_event_def)
qed

lemma zoom_floor_parse_events:
  "zoom_floor (input st) \<Longrightarrow> parse_events st evs = Inr st' \<Longrightarrow> zoom_floor (input st')"
proof (induction evs arbitrary: st)
  case Nil
  then show ?case by simp
next
  case (Cons ev evs)
  show ?case
  proof (cases "parse_event st ev")
    case (Inl e)
    then show ?thesis using Cons.prems by simp
  next
    case (Inr st1)
    have "zoom_floor (input st1)" using zoom_floor_parse_event [OF Cons.prems(1) Inr] .
    moreover have "parse_events st1 evs = Inr st'" using Cons.prems(2) Inr by simp
    ultimately show ?thesis by (rule Cons.IH)
  qed
qed

lemma zoom_floor_parse_input:
  "zoom_floor (input st) \<Longrightarrow> parse_input st evs pressed pos = Inr st' \<Longrightarrow> zoom_floor (input st')"
  by (auto simp: parse_input_def zoom_floor_parse_mouse split: sum.splits
      dest: zoom_floor_parse_events)

lemma ModuleWorld_render_input:
  assumes "ModuleWorld_render pv st dw dh = Inr (st', fr)"
  shows "input st' = input st" and "hero_actor (world st') = hero_actor (world st)"
  using assms
  by (auto simp: ModuleWorld_render_def Let_def
      split: prod.splits sum.splits option.splits list.splits)

lemma reachable_zoom_floor: "reachable st \<Longrightarrow> zoom_floor (input st)"
proof (induction rule: reachable.induct)
  case (reachable_init st)
  then show ?case by (simp add: zoom_floor_init)
next
  case (reachable_input st evs pressed pos st')
  then show ?case by (auto dest: zoom_floor_parse_input)
next
  case (reachable_render st pv dw dh st' fr)
  then show ?case by (simp add: ModuleWorld_render_input(1))
qed

lemma wheel_event_returns: "is_wheel_event ev \<Longrightarrow> \<exists>st'. parse_event st ev = Inr st'"
  by (cases "fst ev") (simp_all add: is_wheel_event_def parse_event_def Let_def)

lemma wheel_events_return: "list_all is_wheel_event evs \<Longrightarrow> \<exists>st'. parse_events st evs = Inr st'"
proof (induction evs arbitrary: st)
  case Nil
  show ?case by simp
next
  case (Cons ev evs)
  from Cons.prems have "is_wheel_event ev" and rest: "list_all is_wheel_event evs" by simp_all
  then obtain st1 where "parse_event st ev = Inr st1" using wheel_event_returns by blast
  then show ?case using Cons.IH [OF rest, of st1] by simp
qed

text \<open>
  Claim C9. From any state the frame loop can reach, a sequence of wheel events is
  processed by \<open>parse_events\<close> without an exception, and after any sequence of events
  that \<open>parse_events\<close> processes both components of \<open>wheel_offset\<close> are at least
  \<open>0.1\<close>: scrolling down, however often, does not bring the zoom below the floor.
\<close>

theorem C9_zoom_floor:
  assumes "reachable st"
  shows "(list_all is_wheel_event evs \<longrightarrow> (\<exists>st'. parse_events st evs = Inr st'))
         \<and> (\<forall>st'. parse_events st evs = Inr st' \<longrightarrow>
               1 / 10 \<le> fst (wheel_offset (input st')) \<and> 1 / 10 \<le> snd (wheel_offset (input st')))"
proof -
  have inv: "zoom_floor (input st)" using assms by (rule reachable_zoom_floor)
  have "zoom_floor (input st')" if "parse_events st evs = Inr st'" for st'
    using inv that by (rule zoom_floor_parse_events)
  then show ?thesis using wheel_events_return by (simp add: zoom_floor_def)
qed

theorem C9_zoom_floor_witness:
  "reachable (ex_state [] None)
   \<and> list_all is_wheel_event (replicate 12 (MOUSEBUTTONDOWN 5 (3, 4), 0))
   \<and> (\<exists>st'. parse_events (ex_state [] None) (replicate 12 (MOUSEBUTTONDOWN 5 (3, 4), 0)) = Inr st'
             \<and> 1 / 10 \<le> fst (wheel_offset (input st')) \<and> 1 / 10 \<le> snd (wheel_offset (input st')))
   \<and> map_sum id (wheel_offset \<circ> input)
        (parse_events (ex_state [] None) (replicate 12 (MOUSEBUTTONDOWN 5 (3, 4), 0)))
       = Inr (1 / 10, 1 / 10)"
proof -
  have r: "reachable (ex_state [] None)"
    by (rule reachable_init) (simp add: ex_state_def)
  have w: "list_all is_wheel_event (replicate 12 (MOUSEBUTTONDOWN 5 (3, 4), 0))"
    by (simp add: is_wheel_event_def list_all_iff)
  have v: "map_sum id (wheel_offset \<circ> input)
        (parse_events (ex_state [] None) (replicate 12 (MOUSEBUTTONDOWN 5 (3, 4), 0)))
       = Inr (1 / 10, 1 / 10)"
    by (simp add: numeral_eq_Suc ex_state_def ModuleInput_init_def parse_event_def
        wheel_down_def Let_def)
  show ?thesis
    using C9_zoom_floor [OF r, of "replicate 12 (MOUSEBUTTONDOWN 5 (3, 4), 0)"] r w v
    by blast
qed

section \<open>Frames of the world module\<close>

lemma ModuleWorld_render_Inr:
  assumes "ModuleWorld_render pv st dw dh = Inr (st', fr)"
  shows "st' = st\<lparr>world := (world st)\<lparr>map_rendered := True\<rparr>\<rparr>"
    and "render_translation_offset pv st dw dh = Inr (translation_offset fr)"
    and "vehicles_rendered fr =
           (case hero_actor (world st) of
              None \<Rightarrow> fst (splitActors (actors (world st)))
            | Some hero \<Rightarrow> filter (is_actor_inside_hero_radius hero (filter_radius (world st)))
                             (fst (splitActors (actors (world st)))))"
    and "traffic_lights_rendered fr =
           (case hero_actor (world st) of
              None \<Rightarrow> fst (snd (splitActors (actors (world st))))
            | Some hero \<Rightarrow> filter (is_actor_inside_hero_radius hero (filter_radius (world st)))
                             (fst (snd (splitActors (actors (world st))))))"
    and "speed_limits_rendered fr =
           (case hero_actor (world st) of
              None \<Rightarrow> fst (snd (snd (splitActors (actors (world st)))))
            | Some hero \<Rightarrow> filter (is_actor_inside_hero_radius hero (filter_radius (world st)))
                             (fst (snd (snd (splitActors (actors (world st)))))))"
    and "walkers_rendered fr = snd (snd (snd (splitActors (actors (world st)))))"
    and "hero_actor (world st) = Some hero \<Longrightarrow>
           filter (\<lambda>vehicle. actor_id vehicle = actor_id hero) (vehicles_rendered fr) \<noteq> []"
  using assms
  by (auto simp: ModuleWorld_render_def Let_def
      split: prod.splits sum.splits option.splits list.splits)



lemma round_binary64_zero: "round_binary64 0 = 0"
  by (simp add: round_binary64_def)


lemma computed_distance_self: "computed_distance a a = 0"
  by (simp add: computed_distance_def round_binary64_zero)

lemma inside_hero_radius_self: "0 \<le> radius \<Longrightarrow> is_actor_inside_hero_radius a radius a"
  by (simp add: is_actor_inside_hero_radius_def computed_distance_self)


text \<open>
  Claim C3 says that in hero mode the translation offset plus the screen point of the
  hero is the centre of the square world canvas. On a display of 1280 by 720 pixels the
  canvas has side 720 and centre \<open>(360, 360)\<close>, while the offset that the rendering
  computes for a hero at screen point \<open>(360, 360)\<close> is \<open>(280, 0)\<close>: the sum is
  \<open>(640, 360)\<close>, the centre of the display.
\<close>

theorem C3_follow_offset_counterexample:
  "map_sum id (translation_offset \<circ> snd)
       (ModuleWorld_render Py3 (ex_state [ex_vehicle] (Some ex_vehicle)) 1280 720) = Inr (280, 0)
   \<and> convert_world_to_screen_point ex_transform (location ex_vehicle) = Inr (360, 360)
   \<and> (280 + real_of_int 360, 0 + real_of_int 360)
        \<noteq> (real_of_int (map_size ex_transform) / 2, real_of_int (map_size ex_transform) / 2)"
  by (simp add: ModuleWorld_render_def Let_def splitActors_filters ex_state_def ex_vehicle_def
      ex_transform_def TransformHelper_init_def sublist_code(3)
      is_actor_inside_hero_radius_def computed_distance_def round_binary64_zero
      render_vehicles_def render_traffic_lights_def render_speed_limits_def render_walkers_def
      Vehicle_def convert_world_to_screen_point_def convert_world_to_screen_size_def
      float_div_def py_int_def render_translation_offset_def int_div2_def renderActorId_def
      render_hero_actor_def ModuleInput_init_def)

text \<open>
  Claim C3, amended. For every frame rendered in hero mode, the translation offset plus
  the screen point of the hero is exactly the centre of the display: half its width and
  half its height, the halves being those of Python's \<open>/\<close> on ints.
\<close>

theorem C3_follow_offset_display_centre:
  assumes "hero_actor (world st) = Some e"
    and "ModuleWorld_render pv st dw dh = Inr (st', fr)"
  shows "\<exists>p. convert_world_to_screen_point (world_transform_helper (world st)) (location e) = Inr p
             \<and> fst (translation_offset fr) + of_int (fst p) = int_div2 pv dw
             \<and> snd (translation_offset fr) + of_int (snd p) = int_div2 pv dh"
proof -
  have off: "render_translation_offset pv st dw dh = Inr (translation_offset fr)"
    using assms(2) by (rule ModuleWorld_render_Inr(2))
  show ?thesis
  proof (cases "convert_world_to_screen_point (world_transform_helper (world st)) (location e)")
    case (Inl err)
    then show ?thesis using off assms(1) by (simp add: render_translation_offset_def)
  next
    case (Inr p)
    then have "translation_offset fr =
                 (- of_int (fst p) + int_div2 pv dw, - of_int (snd p) + int_div2 pv dh)"
      using off assms(1) by (simp add: render_translation_offset_def)
    then show ?thesis using Inr by simp
  qed
qed

theorem C3_follow_offset_display_centre_witness:
  "hero_actor (world (ex_state [ex_vehicle] (Some ex_vehicle))) = Some ex_vehicle
   \<and> (\<exists>st' fr. ModuleWorld_render Py2 (ex_state [ex_vehicle] (Some ex_vehicle)) 1281 720 = Inr (st', fr)
         \<and> convert_world_to_screen_point ex_transform (location ex_vehicle) = Inr (360, 360)
         \<and> fst (translation_offset fr) + 360 = 640
         \<and> snd (translation_offset fr) + 360 = 360)"
proof -
  have h: "hero_actor (world (ex_state [ex_vehicle] (Some ex_vehicle))) = Some ex_vehicle"
    by (simp add: ex_state_def)
  have "\<exists>r. ModuleWorld_render Py2 (ex_state [ex_vehicle] (Some ex_vehicle)) 1281 720 = Inr r"
    by (simp add: ModuleWorld_render_def Let_def splitActors_filters ex_state_def ex_vehicle_def
      ex_transform_def TransformHelper_init_def sublist_code(3)
      is_actor_inside_hero_radius_def computed_distance_def round_binary64_zero
      render_vehicles_def render_traffic_lights_def render_speed_limits_def render_walkers_def
      Vehicle_def convert_world_to_screen_point_def convert_world_to_screen_size_def
      float_div_def py_int_def render_translation_offset_def int_div2_def renderActorId_def
      render_hero_actor_def ModuleInput_init_def)
  then obtain st' fr
    where r: "ModuleWorld_render Py2 (ex_state [ex_vehicle] (Some ex_vehicle)) 1281 720 = Inr (st', fr)"
    by force
  have p: "convert_world_to_screen_point ex_transform (location ex_vehicle) = Inr (360, 360)"
    by (simp add: convert_world_to_screen_point_def ex_transform_def TransformHelper_init_def
        ex_vehicle_def float_div_def py_int_def)
  have t: "world_transform_helper (world (ex_state [ex_vehicle] (Some ex_vehicle))) = ex_transform"
    by (simp add: ex_state_def)
  show ?thesis
    using C3_follow_offset_display_centre [OF h r] h r p t
    by (auto simp: int_div2_def)
qed

section \<open>The radius around the hero\<close>




lemmas ex_render_simps =
  ModuleWorld_render_def Let_def splitActors_filters ex_state_def ex_vehicle_def ex_near_def
  ex_far_def ex_light_def ex_sign_def ex_walker_def ex_light_off_def ex_prop_def
  ex_transform_def TransformHelper_init_def sublist_code(3)
  is_actor_inside_hero_radius_def computed_distance_def round_binary64_zero
  render_vehicles_def render_traffic_lights_def render_speed_limits_def render_walkers_def
  Vehicle_def TrafficLight_def SpeedLimit_def Walker_def
  convert_world_to_screen_point_def convert_world_to_screen_size_def
  float_div_def py_int_def render_translation_offset_def int_div2_def renderActorId_def
  render_hero_actor_def ModuleInput_init_def





section \<open>The hero in the frame loop\<close>

text \<open>
  The hero is drawn from the list of actors and the list is never replaced, so in every
  state of the frame loop a selected hero is a vehicle of the list.
\<close>

lemma random_choice_member: "random_choice r xs = Inr a \<Longrightarrow> a \<in> set xs"
  by (auto simp: random_choice_def split: if_splits)

lemma select_random_hero_result:
  assumes "select_random_hero r w = Inr w'"
  shows "actors w' = actors w"
    and "\<exists>h. hero_actor w' = Some h \<and> h \<in> set (actors w) \<and> sublist ''vehicle'' (type_id h)"
  using assms
  by (auto simp: select_random_hero_def split: sum.splits dest!: random_choice_member)

lemma parse_event_hero:
  assumes "parse_event st ev = Inr st'"
    and "\<And>h. hero_actor (world st) = Some h \<Longrightarrow>
               h \<in> set (actors (world st)) \<and> sublist ''vehicle'' (type_id h)"
    and "hero_actor (world st') = Some h"
  shows "actors (world st') = actors (world st)"
    and "h \<in> set (actors (world st)) \<and> sublist ''vehicle'' (type_id h)"
proof -
  show "actors (world st') = actors (world st)"
  proof (cases "fst ev")
    case (KEYUP k)
    then show ?thesis using assms(1)
      by (cases k)
        (auto simp: parse_event_def split: option.splits sum.splits
          dest: select_random_hero_result(1))
  qed (use assms(1) in \<open>auto simp: parse_event_def Let_def\<close>)
  show "h \<in> set (actors (world st)) \<and> sublist ''vehicle'' (type_id h)"
  proof (cases "fst ev")
    case (KEYUP k)
    then show ?thesis using assms
      by (cases k)
        (auto simp: parse_event_def split: option.splits sum.splits
          dest: select_random_hero_result(2))
  qed (use assms in \<open>auto simp: parse_event_def Let_def\<close>)
qed

lemma parse_events_hero:
  assumes "parse_events st evs = Inr st'"
    and "\<And>h. hero_actor (world st) = Some h \<Longrightarrow>
               h \<in> set (actors (world st)) \<and> sublist ''vehicle'' (type_id h)"
  shows "actors (world st') = actors (world st)
         \<and> (\<forall>h. hero_actor (world st') = Some h \<longrightarrow>
                h \<in> set (actors (world st)) \<and> sublist ''vehicle'' (type_id h))"
  using assms
proof (induction evs arbitrary: st)
  case Nil
  then show ?case by simp
next
  case (Cons ev evs)
  obtain st1 where st1: "parse_event st ev = Inr st1" and rest: "parse_events st1 evs = Inr st'"
    using Cons.prems(1) by (auto split: sum.splits)
  have a1: "actors (world st1) = actors (world st)"
    and h1: "\<And>h. hero_actor (world st1) = Some h \<Longrightarrow>
                 h \<in> set (actors (world st1)) \<and> sublist ''vehicle'' (type_id h)"
  proof -
    show a: "actors (world st1) = actors (world st)"
    proof (cases "hero_actor (world st1)")
      case None
      then show ?thesis using st1
        by (cases "fst ev")
          (auto simp: parse_event_def Let_def split: key.splits option.splits sum.splits
            dest: select_random_hero_result(1))
    next
      case (Some h)
      then show ?thesis using parse_event_hero(1) [OF st1 Cons.prems(2)] by blast
    qed
    show "h \<in> set (actors (world st1)) \<and> sublist ''vehicle'' (type_id h)"
      if "hero_actor (world st1) = Some h" for h
      using parse_event_hero(2) [OF st1 Cons.prems(2) that] a by simp
  qed
  show ?case using Cons.IH [OF rest h1] a1 by simp
qed

lemma frame_loop_hero_among_actors:
  assumes "frame_loop st" and "hero_actor (world st) = Some h"
  shows "h \<in> set (actors (world st)) \<and> sublist ''vehicle'' (type_id h)"
  using assms
proof (induction arbitrary: h rule: frame_loop.induct)
  case (frame_loop_start st)
  then show ?case by simp
next
  case (frame_loop_input st evs pressed pos st')
  obtain st1 where st1: "parse_events st evs = Inr st1"
    and st': "st' = st1\<lparr>input := parse_mouse (input st1) pressed pos\<rparr>"
    using frame_loop_input.hyps(2) by (auto simp: parse_input_def split: sum.splits)
  show ?case
    using parse_events_hero [OF st1 frame_loop_input.IH] frame_loop_input.prems st'
    by simp
next
  case (frame_loop_render st pv dw dh st' fr)
  have "st' = st\<lparr>world := (world st)\<lparr>map_rendered := True\<rparr>\<rparr>"
    using ModuleWorld_render_Inr(1) [OF frame_loop_render.hyps(2)] .
  then show ?case using frame_loop_render.IH frame_loop_render.prems by simp
qed

text \<open>
  So the vehicle that the last step of the rendering selects by its identity is there:
  the hero is a vehicle of the list, and it is inside its own radius.
\<close>

lemma frame_loop_hero_selected:
  assumes "frame_loop st" and "hero_actor (world st) = Some h" and "0 \<le> filter_radius (world st)"
  shows "filter (\<lambda>vehicle. actor_id vehicle = actor_id h)
           (filter (is_actor_inside_hero_radius h (filter_radius (world st)))
              (fst (splitActors (actors (world st))))) \<noteq> []"
proof -
  have "h \<in> set (actors (world st))" and "sublist ''vehicle'' (type_id h)"
    using frame_loop_hero_among_actors [OF assms(1,2)] by simp_all
  then have "h \<in> set (fst (splitActors (actors (world st))))"
    by (simp add: splitActors_filters)
  then have "h \<in> set (filter (\<lambda>vehicle. actor_id vehicle = actor_id h)
           (filter (is_actor_inside_hero_radius h (filter_radius (world st)))
              (fst (splitActors (actors (world st))))))"
    using inside_hero_radius_self [OF assms(3)] by simp
  then show ?thesis by (metis empty_iff empty_set)
qed

section \<open>The bounding box and the traffic-light renderer\<close>

lemma TrafficLight_result:
  assumes "\<not> degenerate h"
  shows "TrafficLight a r h =
           (if sublist ''traffic_light'' (type_id a) \<and> state a \<in> {Green, Yellow, Red}
            then Inr \<lparr>disc_pos = projr (convert_world_to_screen_point h (location a)),
                     disc_self_color = COLOR_BLACK,
                     disc_drawn_color = (if state a = Green then COLOR_GREEN
                                         else if state a = Yellow then COLOR_YELLOW else COLOR_RED),
                     disc_radius = r\<rparr>
            else Inl UnboundLocalError)"
  by (auto simp: TrafficLight_def convert_point_nondegenerate [OF assms])

lemma bounding_box_fold:
  "foldl bounding_box_step (Fin a, Fin b, c, d) wps =
     (Fin (fold min (map (fst \<circ> wp_location) wps) a),
      Fin (fold min (map (snd \<circ> wp_location) wps) b),
      fold max (map (fst \<circ> wp_location) wps) c,
      fold max (map (snd \<circ> wp_location) wps) d)"
proof (induction wps arbitrary: a b c d)
  case Nil
  show ?case by simp
next
  case (Cons wp wps)
  have step: "bounding_box_step (Fin a, Fin b, c, d) wp =
                (Fin (min (fst (wp_location wp)) a), Fin (min (snd (wp_location wp)) b),
                 max (fst (wp_location wp)) c, max (snd (wp_location wp)) d)"
    by (auto simp: bounding_box_step_def py_max_def min_def max_def)
  show ?case by (simp only: foldl_Cons step Cons.IH) simp
qed

lemma compute_map_bounding_box_nonempty:
  assumes "wps \<noteq> []"
  shows "compute_map_bounding_box wps =
           (Fin (Min (set (map (fst \<circ> wp_location) wps))),
            Fin (Min (set (map (snd \<circ> wp_location) wps))),
            Max (set (0 # map (fst \<circ> wp_location) wps)),
            Max (set (0 # map (snd \<circ> wp_location) wps)))"
proof -
  obtain wp rest where wps: "wps = wp # rest" using assms by (cases wps) auto
  have first: "bounding_box_step (PInf, PInf, 0, 0) wp =
                 (Fin (fst (wp_location wp)), Fin (snd (wp_location wp)),
                  max (fst (wp_location wp)) 0, max (snd (wp_location wp)) 0)"
    by (auto simp: bounding_box_step_def py_max_def max_def)
  have mx: "fold max xs (max x 0) = Max (set (0 # x # xs))" for x :: real and xs
    using Max.set_eq_fold [of 0 "x # xs"] by (simp add: max.commute)
  show ?thesis
    unfolding compute_map_bounding_box_def wps
    by (simp only: foldl_Cons first bounding_box_fold Min.set_eq_fold list.map comp_apply mx)
qed

text \<open>
  Claim C6 says that \<open>compute_map_bounding_box\<close> returns the least and the greatest
  coordinate on each axis. The two maxima start from \<open>0\<close> where the minima start from
  infinity, so for a map that lies left of or above the origin the code returns \<open>0\<close>
  as the maximum (see \<open>compute_map_bounding_box_nonempty\<close> for the general form). At
  the single waypoint \<open>(-5, -3)\<close> the greatest coordinates are \<open>-5\<close> and \<open>-3\<close>, and the
  code returns \<open>(-5, -3, 0, 0)\<close>.
\<close>

theorem C6_bounding_box_negative_map:
  "compute_map_bounding_box [ex_waypoint] = (Fin (- 5), Fin (- 3), 0, 0)
   \<and> wp_location ex_waypoint = (- 5, - 3)
   \<and> Max (set (map (fst \<circ> wp_location) [ex_waypoint])) = - 5
   \<and> Max (set (map (snd \<circ> wp_location) [ex_waypoint])) = - 3"
  by (simp add: compute_map_bounding_box_def bounding_box_step_def ex_waypoint_def py_max_def)

text \<open>
  Claim C7 says that constructing a \<open>TrafficLight\<close> renderer never raises and falls back
  to a neutral colour. The fallback is stored in \<open>self.color\<close>, but the disc is drawn
  with the local \<open>color\<close>, which is unbound for a light that is off and for an actor
  that is no traffic light: the constructor raises \<open>UnboundLocalError\<close>, and so does
  the frame that renders such a light. A green light is drawn in green.
\<close>

theorem C7_traffic_light_unbound_color:
  "TrafficLight ex_light_off 3 ex_transform = Inl UnboundLocalError
   \<and> TrafficLight ex_sign 3 ex_transform = Inl UnboundLocalError
   \<and> TrafficLight ex_light 3 ex_transform =
        Inr \<lparr>disc_pos = (360, 396), disc_self_color = COLOR_BLACK,
             disc_drawn_color = COLOR_GREEN, disc_radius = 3\<rparr>
   \<and> ModuleWorld_render Py3 (ex_state [ex_vehicle, ex_light_off] None) 1280 720
        = Inl UnboundLocalError"
  by (simp add: ex_render_simps)

end
